theory Spec2Isabelle
  imports Main
begin

section \<open>JavaScript values seen by the upload page\<close>

text \<open>
  The page (\<^verbatim>\<open>src/frontend/src/App.jsx\<close>) stores whatever the parsed response
  holds into its state, so state cells carry JavaScript values: \<^verbatim>\<open>undefined\<close> and the
  values of \<^verbatim>\<open>JSON.parse\<close>. The page never computes with a number; it only asks
  whether one is truthy and how it prints, so the number type \<open>'n\<close> and those two
  operations belong to the engine (see \<open>engine\<close> below). An object is the member list
  of its JSON text; a later member of the same key overwrites an earlier one.
\<close>

datatype 'n js =
    JUndefined
  | JNull
  | JBool bool
  | JNum 'n
  | JStr string
  | JArr "'n js list"
  | JObj "(string \<times> 'n js) list"

text \<open>
  The two ways the handler's property reads and its method call can fail. The text of
  such a \<^verbatim>\<open>TypeError\<close> is chosen by the JavaScript engine.
\<close>

datatype type_error =
    ReadPropertyOfNull string
  | ReadPropertyOfUndefined string
  | NotAFunction string

text \<open>A thrown value: an error object with its message, or an engine \<^verbatim>\<open>TypeError\<close>.\<close>

datatype thrown =
    Error string
  | TypeError type_error

record 'n engine =
  num_truthy :: "'n \<Rightarrow> bool"
  num_to_string :: "'n \<Rightarrow> string"
  type_error_message :: "type_error \<Rightarrow> string"

definition message :: "'n engine \<Rightarrow> thrown \<Rightarrow> string" where
  "message eng e = (case e of Error m \<Rightarrow> m | TypeError t \<Rightarrow> type_error_message eng t)"

text \<open>\<^verbatim>\<open>ToBoolean\<close>, as used by \<^verbatim>\<open>!x\<close>, \<^verbatim>\<open>x && y\<close> and \<^verbatim>\<open>x || y\<close>.\<close>

definition truthy :: "'n engine \<Rightarrow> 'n js \<Rightarrow> bool" where
  "truthy eng v =
     (case v of
        JUndefined \<Rightarrow> False
      | JNull \<Rightarrow> False
      | JBool b \<Rightarrow> b
      | JNum n \<Rightarrow> num_truthy eng n
      | JStr s \<Rightarrow> s \<noteq> []
      | JArr _ \<Rightarrow> True
      | JObj _ \<Rightarrow> True)"

text \<open>
  \<^verbatim>\<open>data.key\<close> for the four keys the handler reads (\<^verbatim>\<open>summary\<close>,
  \<^verbatim>\<open>cable_pull_sheet\<close>, \<^verbatim>\<open>reflected_bom\<close>, \<^verbatim>\<open>notes\<close>): none of them is a
  property of a built-in prototype, so a read on a primitive, an array or an object
  without the member gives \<^verbatim>\<open>undefined\<close>, and a read on \<^verbatim>\<open>null\<close> or
  \<^verbatim>\<open>undefined\<close> throws.
\<close>

definition get_prop :: "'n js \<Rightarrow> string \<Rightarrow> thrown + 'n js" where
  "get_prop d k =
     (case d of
        JNull \<Rightarrow> Inl (TypeError (ReadPropertyOfNull k))
      | JUndefined \<Rightarrow> Inl (TypeError (ReadPropertyOfUndefined k))
      | JObj kvs \<Rightarrow> Inr (case map_of (rev kvs) k of None \<Rightarrow> JUndefined | Some v \<Rightarrow> v)
      | _ \<Rightarrow> Inr JUndefined)"

fun join_strings :: "string \<Rightarrow> string list \<Rightarrow> string" where
  "join_strings sep [] = []"
| "join_strings sep [x] = x"
| "join_strings sep (x # y # ys) = x @ sep @ join_strings sep (y # ys)"

text \<open>
  \<^verbatim>\<open>ToString\<close> on a parsed value, and \<^verbatim>\<open>Array.prototype.join\<close>, which prints
  \<^verbatim>\<open>undefined\<close> and \<^verbatim>\<open>null\<close> elements as the empty string and every other
  element by \<^verbatim>\<open>ToString\<close> (an array by joining it with a comma).
\<close>

fun to_string :: "'n engine \<Rightarrow> 'n js \<Rightarrow> string" where
  "to_string eng JUndefined = ''undefined''"
| "to_string eng JNull = ''null''"
| "to_string eng (JBool b) = (if b then ''true'' else ''false'')"
| "to_string eng (JNum n) = num_to_string eng n"
| "to_string eng (JStr s) = s"
| "to_string eng (JArr xs) =
     join_strings '',''
       (map (\<lambda>x. if x = JUndefined \<or> x = JNull then [] else to_string eng x) xs)"
| "to_string eng (JObj kvs) = ''[object Object]''"

definition join :: "'n engine \<Rightarrow> 'n js list \<Rightarrow> string \<Rightarrow> string" where
  "join eng xs sep =
     join_strings sep
       (map (\<lambda>x. if x = JUndefined \<or> x = JNull then [] else to_string eng x) xs)"

text \<open>
  The method call \<^verbatim>\<open>v.join(sep)\<close> on a parsed value: only an array has a callable
  \<^verbatim>\<open>join\<close>. On \<^verbatim>\<open>undefined\<close> and \<^verbatim>\<open>null\<close> the property read throws; on every
  other value \<^verbatim>\<open>v.join\<close> is not a function (an object member named \<^verbatim>\<open>join\<close> is
  parsed data, never callable).
\<close>

definition call_join :: "'n engine \<Rightarrow> 'n js \<Rightarrow> string \<Rightarrow> thrown + string" where
  "call_join eng v sep =
     (case v of
        JArr xs \<Rightarrow> Inr (join eng xs sep)
      | JUndefined \<Rightarrow> Inl (TypeError (ReadPropertyOfUndefined ''join''))
      | JNull \<Rightarrow> Inl (TypeError (ReadPropertyOfNull ''join''))
      | _ \<Rightarrow> Inl (TypeError (NotAFunction ''data.notes.join'')))"

section \<open>The component state and its environment\<close>

text \<open>The six \<^verbatim>\<open>useState\<close> cells of \<^verbatim>\<open>App\<close>, lines 4 to 9.\<close>

record 'n state =
  summary :: "'n js"
  pullSheet :: "'n js"
  bom :: "'n js"
  notes' :: string
  filename :: string
  loading :: bool

definition initial_state :: "'n state" where
  "initial_state =
     \<lparr>summary = JStr [], pullSheet = JStr [], bom = JStr [], notes' = [],
      filename = [], loading = False\<rparr>"

record js_file =
  name :: string
  file_bytes :: string

record target =
  files :: "js_file list"

record event =
  target :: target

text \<open>
  What the network does with the request. A promise may never settle (the code sets no
  timeout), may reject with an error carrying a message, or may fulfil.
\<close>

datatype 'n json_outcome =
    JsonPending
  | JsonRejected string
  | JsonParsed "'n js"

datatype 'n fetch_outcome =
    FetchPending
  | FetchRejected string
  | FetchResponse bool "'n json_outcome"

fun settles :: "'n fetch_outcome \<Rightarrow> bool" where
  "settles FetchPending = False"
| "settles (FetchRejected m) = True"
| "settles (FetchResponse ok body) = (\<not> ok \<or> body \<noteq> JsonPending)"

record link =
  href :: string
  download :: string

datatype effect =
    Fetch string string "(string \<times> js_file) list"
  | Alert string
  | AppendChild link
  | Click link
  | RemoveChild link

section \<open>handleUpload\<close>

datatype completion =
    Completed
  | Threw thrown
  | Suspended

text \<open>Lines 29 to 33: the statements after \<^verbatim>\<open>await response.json()\<close>.\<close>

definition consume :: "'n engine \<Rightarrow> 'n js \<Rightarrow> 'n state \<Rightarrow> 'n state \<times> completion" where
  "consume eng data st =
     (case get_prop data ''summary'' of
        Inl e \<Rightarrow> (st, Threw e)
      | Inr v1 \<Rightarrow>
          let st1 = st\<lparr>summary := v1\<rparr> in
          (case get_prop data ''cable_pull_sheet'' of
             Inl e \<Rightarrow> (st1, Threw e)
           | Inr v2 \<Rightarrow>
               let st2 = st1\<lparr>pullSheet := v2\<rparr> in
               (case get_prop data ''reflected_bom'' of
                  Inl e \<Rightarrow> (st2, Threw e)
                | Inr v3 \<Rightarrow>
                    let st3 = st2\<lparr>bom := v3\<rparr> in
                    (case get_prop data ''notes'' of
                       Inl e \<Rightarrow> (st3, Threw e)
                     | Inr v4 \<Rightarrow>
                         (case call_join eng v4 [CHR 0x0A] of
                            Inl e \<Rightarrow> (st3, Threw e)
                          | Inr s \<Rightarrow> (st3\<lparr>notes' := s\<rparr>, Completed))))))"

text \<open>Lines 22 to 33: the body of the \<^verbatim>\<open>try\<close> block.\<close>

definition try_block ::
  "'n engine \<Rightarrow> 'n fetch_outcome \<Rightarrow> 'n state \<Rightarrow> 'n state \<times> completion" where
  "try_block eng net st =
     (case net of
        FetchPending \<Rightarrow> (st, Suspended)
      | FetchRejected m \<Rightarrow> (st, Threw (Error m))
      | FetchResponse ok body \<Rightarrow>
          if \<not> ok then (st, Threw (Error ''Upload failed''))
          else (case body of
                  JsonPending \<Rightarrow> (st, Suspended)
                | JsonRejected m \<Rightarrow> (st, Threw (Error m))
                | JsonParsed data \<Rightarrow> consume eng data st))"

text \<open>
  Lines 11 to 39. The result is the component state when the handler has run as far as
  it can, with the effects it issued in order. A handler suspended on a promise that never
  settles has run neither \<^verbatim>\<open>catch\<close> nor \<^verbatim>\<open>finally\<close>.
\<close>

definition handleUpload ::
  "'n engine \<Rightarrow> 'n fetch_outcome \<Rightarrow> event \<Rightarrow> 'n state \<Rightarrow> 'n state \<times> effect list" where
  "handleUpload eng net ev st =
     (case files (target ev) of
        [] \<Rightarrow> (st, [])
      | f # _ \<Rightarrow>
          let st1 = st\<lparr>filename := name f\<rparr>;
              st2 = st1\<lparr>loading := True\<rparr>;
              formData = [(''file'', f)];
              request = Fetch ''/upload'' ''POST'' formData
          in (case try_block eng net st2 of
                (st3, Suspended) \<Rightarrow> (st3, [request])
              | (st3, Completed) \<Rightarrow> (st3\<lparr>loading := False\<rparr>, [request])
              | (st3, Threw error) \<Rightarrow>
                  (st3\<lparr>loading := False\<rparr>, [request, Alert (message eng error)])))"

section \<open>downloadFile, renderSection and the rendered page\<close>

text \<open>\<^verbatim>\<open>path.split('/')\<close>: the segments between slashes, never an empty list.\<close>

fun split_slash :: "string \<Rightarrow> string list" where
  "split_slash [] = [[]]"
| "split_slash (c # cs) =
     (if c = CHR ''/'' then [] # split_slash cs
      else (case split_slash cs of
              [] \<Rightarrow> [[c]]
            | s # ss \<Rightarrow> (c # s) # ss))"

definition downloadFile :: "string \<Rightarrow> effect list" where
  "downloadFile path =
     (let l = \<lparr>href = path, download = last (split_slash path)\<rparr>
      in [AppendChild l, Click l, RemoveChild l])"

datatype 'n element =
    Section string "'n js"
  | Buttons "(string \<times> string) list"

text \<open>
  The value of a JSX expression slot: a plain value (which React shows as text or not at
  all) or the fragment of lines 67 to 86. A button is its label with the path its
  \<^verbatim>\<open>onClick\<close> passes to \<^verbatim>\<open>downloadFile\<close>.
\<close>

datatype 'n slot =
    Plain "'n js"
  | Fragment "'n element list"

record 'n view =
  processing :: bool
  results :: "'n slot"

definition renderSection :: "'n engine \<Rightarrow> string \<Rightarrow> 'n js \<Rightarrow> 'n element" where
  "renderSection eng title cont =
     Section title (if truthy eng cont then cont else JStr ''No data available.'')"

definition App :: "'n engine \<Rightarrow> 'n state \<Rightarrow> 'n view" where
  "App eng st =
     \<lparr>processing = loading st,
      results =
        (if loading st then Plain (JBool False)
         else if \<not> truthy eng (summary st) then Plain (summary st)
         else Fragment
           [renderSection eng ''System Summary'' (summary st),
            renderSection eng ''Cable Pull Sheet'' (pullSheet st),
            Buttons
              [(''Download Pull Sheet PDF'', ''/files/'' @ filename st @ ''_pullsheet.pdf''),
               (''Download Pull Sheet CSV'', ''/files/'' @ filename st @ ''_pullsheet.csv'')],
            renderSection eng ''Reflected BOM'' (bom st),
            Buttons
              [(''Download BOM PDF'', ''/files/'' @ filename st @ ''_bom.pdf''),
               (''Download BOM CSV'', ''/files/'' @ filename st @ ''_bom.csv'')],
            renderSection eng ''System Verification Notes'' (JStr (notes' st)),
            Buttons
              [(''Download Summary PDF'', ''/files/'' @ filename st @ ''_summary.pdf''),
               (''Download Verification PDF'',
                ''/files/'' @ filename st @ ''_verification.pdf'')]])\<rparr>"

text \<open>
  The artifact references a rendered page offers: the paths behind its download buttons,
  in page order.
\<close>

fun element_paths :: "'n element \<Rightarrow> string list" where
  "element_paths (Section title cont) = []"
| "element_paths (Buttons bs) = map snd bs"

definition download_paths :: "'n view \<Rightarrow> string list" where
  "download_paths v =
     (case results v of
        Plain x \<Rightarrow> []
      | Fragment es \<Rightarrow> concat (map element_paths es))"

section \<open>What React displays\<close>

text \<open>
  What the browser shows for the results slot of a rendered page. React prints a string
  or a number child as text, shows nothing for \<^verbatim>\<open>undefined\<close>, \<^verbatim>\<open>null\<close>, a
  boolean and the empty string, renders an array child element by element, and throws on
  a plain object child (\<^verbatim>\<open>Objects are not valid as a React child\<close>). The page has no
  error boundary, so a throw unmounts it: \<open>None\<close> is the blank page.
\<close>

datatype shown =
    ShownText string
  | ShownSection string "string list"
  | ShownButtons "(string \<times> string) list"

fun react_child :: "'n engine \<Rightarrow> 'n js \<Rightarrow> string list option" where
  "react_child eng JUndefined = Some []"
| "react_child eng JNull = Some []"
| "react_child eng (JBool b) = Some []"
| "react_child eng (JNum n) = Some [num_to_string eng n]"
| "react_child eng (JStr s) = Some (if s = [] then [] else [s])"
| "react_child eng (JArr xs) = map_option concat (those (map (react_child eng) xs))"
| "react_child eng (JObj kvs) = None"

text \<open>
  A section shows its title and the text of its content (line 54); a button row shows
  its buttons.
\<close>

fun react_element :: "'n engine \<Rightarrow> 'n element \<Rightarrow> shown option" where
  "react_element eng (Section title cont) =
     map_option (ShownSection title) (react_child eng cont)"
| "react_element eng (Buttons bs) = Some (ShownButtons bs)"

definition react :: "'n engine \<Rightarrow> 'n view \<Rightarrow> shown list option" where
  "react eng v =
     (case results v of
        Plain x \<Rightarrow> map_option (map ShownText) (react_child eng x)
      | Fragment es \<Rightarrow> those (map (react_element eng) es))"

section \<open>The result contract of the upload endpoint\<close>

text \<open>
  Modelled from the spec: the JobResult type is declared by the backend
  (\<^verbatim>\<open>app.main\<close>), which is not among the sources. Section 6 gives the fields the
  caller is sent: \<^verbatim>\<open>summary\<close> (text), \<^verbatim>\<open>cable_pull_sheet\<close> (text),
  \<^verbatim>\<open>reflected_bom\<close> (text) and \<^verbatim>\<open>notes\<close> (an ordered list of strings).
\<close>

record job_result =
  jr_summary :: string
  jr_cable_pull_sheet :: string
  jr_reflected_bom :: string
  jr_notes :: "string list"

text \<open>
  Modelled from the spec: a parsed response body carries a JobResult when reading the
  four fields of section 6 from it gives the JobResult's values. Other members of the
  body are left free.
\<close>

definition carries :: "'n js \<Rightarrow> job_result \<Rightarrow> bool" where
  "carries data jr \<longleftrightarrow>
     get_prop data ''summary'' = Inr (JStr (jr_summary jr)) \<and>
     get_prop data ''cable_pull_sheet'' = Inr (JStr (jr_cable_pull_sheet jr)) \<and>
     get_prop data ''reflected_bom'' = Inr (JStr (jr_reflected_bom jr)) \<and>
     get_prop data ''notes'' = Inr (JArr (map JStr (jr_notes jr)))"

text \<open>
  Modelled from the spec: the naming convention of section 6,
  \<^verbatim>\<open>{original-filename}_{artifact-suffix}.{ext}\<close>, for an artifact given as its
  suffix and extension.
\<close>

definition spec_artifact_name :: "string \<Rightarrow> string \<times> string \<Rightarrow> string" where
  "spec_artifact_name original a = original @ ''_'' @ fst a @ ''.'' @ snd a"

text \<open>
  Modelled from the spec: the six artifacts of section 6, in the order it lists them:
  pull-sheet PDF, pull-sheet CSV, BOM PDF, BOM CSV, summary PDF, verification PDF.
\<close>

definition spec_artifact_kinds :: "(string \<times> string) list" where
  "spec_artifact_kinds =
     [(''pullsheet'', ''pdf''), (''pullsheet'', ''csv''), (''bom'', ''pdf''),
      (''bom'', ''csv''), (''summary'', ''pdf''), (''verification'', ''pdf'')]"

text \<open>\<^verbatim>\<open>Array.isArray\<close>.\<close>

fun is_array :: "'n js \<Rightarrow> bool" where
  "is_array (JArr xs) = True"
| "is_array v = False"

section \<open>The Interpretation Engine, from its specification\<close>

text \<open>
  Modelled from the spec: the Interpretation Engine and its data live in the backend,
  which is not among the sources. Section 3 gives the records: a device has a name, a
  type and a location hint; a routing path has a source, a destination and a signal
  type; an InterpretationResult has a device list, routing paths, ordered notes and a
  summary narrative. The spec does not say how a path refers to a device; here its
  source and destination are device names.
\<close>

record device =
  dev_name :: string
  dev_type :: string
  dev_location :: string

record routing_path =
  path_source :: string
  path_destination :: string
  path_signal :: string

record interpretation_result =
  ir_devices :: "device list"
  ir_paths :: "routing_path list"
  ir_notes :: "string list"
  ir_summary :: string

text \<open>
  Modelled from the spec: a segment of ExtractedContent (section 3) holds raw text, an
  optional region hint and a confidence indicator.
\<close>

record segment =
  seg_text :: string
  seg_region :: "string option"
  seg_confidence :: nat

text \<open>Modelled from the spec: the two failures of \<^verbatim>\<open>interpret\<close> (section 4.2).\<close>

datatype interpretation_error =
    InterpretationTimeoutError
  | MalformedResponseError

text \<open>
  Modelled from the spec: what section 4.2 leaves to the deployment. \<open>chunks\<close> groups
  the segments of a document, \<open>ask\<close> is the language-model call on one group with its
  parsing and repair attempts, \<open>summarise\<close> combines the narratives of the groups, and
  \<open>dropped_note\<close> words the note recorded for a dropped routing path.
\<close>

record interpreter =
  chunks :: "segment list \<Rightarrow> segment list list"
  ask :: "segment list \<Rightarrow> interpretation_error + interpretation_result"
  summarise :: "string list \<Rightarrow> string"
  dropped_note :: "routing_path \<Rightarrow> string"

text \<open>Modelled from the spec: device identity is the pair of name and location.\<close>

definition identity :: "device \<Rightarrow> string \<times> string" where
  "identity d = (dev_name d, dev_location d)"

text \<open>
  Modelled from the spec: deduplication by identity. The first device of each identity
  is kept, in order; \<open>seen\<close> holds the identities already kept.
\<close>

fun dedup_from :: "(string \<times> string) list \<Rightarrow> device list \<Rightarrow> device list" where
  "dedup_from seen [] = []"
| "dedup_from seen (d # ds) =
     (if identity d \<in> set seen then dedup_from seen ds
      else d # dedup_from (identity d # seen) ds)"

definition dedup_devices :: "device list \<Rightarrow> device list" where
  "dedup_devices ds = dedup_from [] ds"

text \<open>
  Modelled from the spec: a routing path resolves in a device list when its source and
  its destination both name a listed device; referential integrity is that every
  routing path of a result resolves in the result's own device list.
\<close>

definition present :: "device list \<Rightarrow> string \<Rightarrow> bool" where
  "present ds n \<longleftrightarrow> n \<in> set (map dev_name ds)"

definition resolves :: "device list \<Rightarrow> routing_path \<Rightarrow> bool" where
  "resolves ds p \<longleftrightarrow> present ds (path_source p) \<and> present ds (path_destination p)"

definition referential_integrity :: "interpretation_result \<Rightarrow> bool" where
  "referential_integrity r \<longleftrightarrow> list_all (resolves (ir_devices r)) (ir_paths r)"

text \<open>
  Modelled from the spec: the enforcement step of section 4.2. Routing paths that refer
  to an absent device are dropped, and a note is recorded for each.
\<close>

definition enforce_integrity ::
  "interpreter \<Rightarrow> interpretation_result \<Rightarrow> interpretation_result" where
  "enforce_integrity cfg r =
     r\<lparr>ir_paths := filter (resolves (ir_devices r)) (ir_paths r),
       ir_notes := ir_notes r @
         map (dropped_note cfg) (filter (\<lambda>p. \<not> resolves (ir_devices r) p) (ir_paths r))\<rparr>"

text \<open>
  Modelled from the spec: the merge of the results of the chunks. Devices are
  deduplicated by identity, then the paths are checked against the deduplicated list.
\<close>

definition merge :: "interpreter \<Rightarrow> interpretation_result list \<Rightarrow> interpretation_result" where
  "merge cfg rs =
     enforce_integrity cfg
       \<lparr>ir_devices = dedup_devices (concat (map ir_devices rs)),
        ir_paths = concat (map ir_paths rs),
        ir_notes = concat (map ir_notes rs),
        ir_summary = summarise cfg (map ir_summary rs)\<rparr>"

text \<open>Modelled from the spec: the calls on the chunks in order; the first failure ends the job.\<close>

fun collect ::
  "('a \<Rightarrow> interpretation_error + 'b) \<Rightarrow> 'a list \<Rightarrow> interpretation_error + 'b list" where
  "collect f [] = Inr []"
| "collect f (x # xs) =
     (case f x of
        Inl e \<Rightarrow> Inl e
      | Inr y \<Rightarrow> (case collect f xs of Inl e \<Rightarrow> Inl e | Inr ys \<Rightarrow> Inr (y # ys)))"

text \<open>
  Modelled from the spec: \<^verbatim>\<open>interpret\<close> of section 4.2. The content is chunked, each
  chunk is interpreted, and the results are merged; a document of one chunk is the merge
  of one result, so the enforcement step runs before every return.
\<close>

definition interpret_content ::
  "interpreter \<Rightarrow> segment list \<Rightarrow> interpretation_error + interpretation_result" where
  "interpret_content cfg content =
     (case collect (ask cfg) (chunks cfg content) of
        Inl e \<Rightarrow> Inl e
      | Inr rs \<Rightarrow> Inr (merge cfg rs))"

section \<open>A concrete engine for evaluation\<close>

text \<open>
  Natural numbers as the number type, printed in decimal, with the \<^verbatim>\<open>TypeError\<close>
  texts of V8.
\<close>

fun nat_to_string :: "nat \<Rightarrow> string" where
  "nat_to_string n =
     (if n < 10 then [char_of (48 + n)]
      else nat_to_string (n div 10) @ [char_of (48 + n mod 10)])"

definition v8_message :: "type_error \<Rightarrow> string" where
  "v8_message t =
     (case t of
        ReadPropertyOfNull k \<Rightarrow>
          ''Cannot read properties of null (reading '' @ [CHR 0x27] @ k @ [CHR 0x27] @ '')''
      | ReadPropertyOfUndefined k \<Rightarrow>
          ''Cannot read properties of undefined (reading '' @ [CHR 0x27] @ k @ [CHR 0x27] @ '')''
      | NotAFunction f \<Rightarrow> f @ '' is not a function'')"

definition sample_engine :: "nat engine" where
  "sample_engine =
     \<lparr>num_truthy = (\<lambda>n. n \<noteq> 0), num_to_string = nat_to_string,
      type_error_message = v8_message\<rparr>"

definition pick :: "string \<Rightarrow> event" where
  "pick n = \<lparr>target = \<lparr>files = [\<lparr>name = n, file_bytes = ''%PDF''\<rparr>]\<rparr>\<rparr>"

definition no_pick :: event where
  "no_pick = \<lparr>target = \<lparr>files = []\<rparr>\<rparr>"

definition shown_state :: "nat state" where
  "shown_state =
     \<lparr>summary = JStr ''Two racks'', pullSheet = JStr ''C1 HDMI'', bom = JStr ''1x amp'',
      notes' = ''check rack 2'', filename = ''a.pdf'', loading = False\<rparr>"

definition good_response :: "nat js" where
  "good_response =
     JObj [(''summary'', JStr ''Two racks''), (''cable_pull_sheet'', JStr ''C1 HDMI''),
           (''reflected_bom'', JStr ''1x amp''), (''notes'', JArr [JStr ''check rack 2''])]"

definition good_result :: job_result where
  "good_result =
     \<lparr>jr_summary = ''Two racks'', jr_cable_pull_sheet = ''C1 HDMI'',
      jr_reflected_bom = ''1x amp'', jr_notes = [''check rack 2'']\<rparr>"

definition blank_response :: "nat js" where
  "blank_response =
     JObj [(''summary'', JStr []), (''cable_pull_sheet'', JStr ''C1 HDMI''),
           (''reflected_bom'', JStr ''1x amp''), (''notes'', JArr [])]"

definition blank_result :: job_result where
  "blank_result =
     \<lparr>jr_summary = [], jr_cable_pull_sheet = ''C1 HDMI'',
      jr_reflected_bom = ''1x amp'', jr_notes = []\<rparr>"

definition bad_notes_response :: "nat js" where
  "bad_notes_response =
     JObj [(''summary'', JStr ''One rack''), (''cable_pull_sheet'', JStr ''C9 SDI''),
           (''reflected_bom'', JStr ''2x dsp''), (''notes'', JStr ''none'')]"

definition object_summary_response :: "nat js" where
  "object_summary_response =
     JObj [(''summary'', JObj [(''text'', JStr ''One rack'')]),
           (''cable_pull_sheet'', JStr ''C9 SDI''), (''reflected_bom'', JStr ''2x dsp'')]"


definition error_response :: "nat js" where
  "error_response = JObj [(''detail'', JStr ''Internal Server Error'')]"

definition amp :: device where
  "amp = \<lparr>dev_name = ''AMP-1'', dev_type = ''amplifier'', dev_location = ''Rack 1''\<rparr>"

definition amp_again :: device where
  "amp_again =
     \<lparr>dev_name = ''AMP-1'', dev_type = ''power amplifier'', dev_location = ''Rack 1''\<rparr>"

definition spk :: device where
  "spk = \<lparr>dev_name = ''SPK-1'', dev_type = ''speaker'', dev_location = ''Ceiling''\<rparr>"

definition amp_to_spk :: routing_path where
  "amp_to_spk =
     \<lparr>path_source = ''AMP-1'', path_destination = ''SPK-1'', path_signal = ''audio''\<rparr>"

definition amp_to_dsp :: routing_path where
  "amp_to_dsp =
     \<lparr>path_source = ''AMP-1'', path_destination = ''DSP-9'', path_signal = ''control''\<rparr>"

definition page_one :: interpretation_result where
  "page_one =
     \<lparr>ir_devices = [amp, spk], ir_paths = [amp_to_spk], ir_notes = [''sheet A1''],
      ir_summary = ''One zone.''\<rparr>"

definition page_two :: interpretation_result where
  "page_two =
     \<lparr>ir_devices = [amp_again], ir_paths = [amp_to_dsp], ir_notes = [],
      ir_summary = ''Controls.''\<rparr>"

definition sample_interpreter :: interpreter where
  "sample_interpreter =
     \<lparr>chunks = map (\<lambda>s. [s]),
      ask = (\<lambda>c. if map seg_text c = [''A1''] then Inr page_one
                  else if map seg_text c = [''A2''] then Inr page_two
                  else Inl MalformedResponseError),
      summarise = concat,
      dropped_note = (\<lambda>p. ''dropped '' @ path_source p @ '' to '' @ path_destination p)\<rparr>"

definition two_pages :: "segment list" where
  "two_pages =
     [\<lparr>seg_text = ''A1'', seg_region = None, seg_confidence = 90\<rparr>,
      \<lparr>seg_text = ''A2'', seg_region = None, seg_confidence = 40\<rparr>]"

section \<open>Facts about the page\<close>

lemma join_strs: "join eng (map JStr ns) sep = join_strings sep ns"
  by (simp add: join_def comp_def)

lemma consume_carries:
  "carries data jr \<Longrightarrow>
   consume eng data st =
     (st\<lparr>summary := JStr (jr_summary jr), pullSheet := JStr (jr_cable_pull_sheet jr),
         bom := JStr (jr_reflected_bom jr), notes' := join_strings [CHR 0x0A] (jr_notes jr)\<rparr>,
      Completed)"
  by (simp add: carries_def consume_def call_join_def join_strs)

lemma handleUpload_carries:
  "files (target ev) = f # fs \<Longrightarrow> carries data jr \<Longrightarrow>
   handleUpload eng (FetchResponse True (JsonParsed data)) ev st =
     (\<lparr>summary = JStr (jr_summary jr), pullSheet = JStr (jr_cable_pull_sheet jr),
       bom = JStr (jr_reflected_bom jr), notes' = join_strings [CHR 0x0A] (jr_notes jr),
       filename = name f, loading = False\<rparr>,
      [Fetch ''/upload'' ''POST'' [(''file'', f)]])"
  by (simp add: handleUpload_def try_block_def consume_carries)

text \<open>The two failure paths of a job: the request is rejected, or the response is not ok.\<close>

lemma handleUpload_failed:
  "files (target ev) = f # fs \<Longrightarrow> net = FetchRejected m \<or> net = FetchResponse False body \<Longrightarrow>
   handleUpload eng net ev st =
     (st\<lparr>filename := name f, loading := False\<rparr>,
      [Fetch ''/upload'' ''POST'' [(''file'', f)],
       Alert (case net of FetchRejected m' \<Rightarrow> m' | _ \<Rightarrow> ''Upload failed'')])"
  by (auto simp: handleUpload_def try_block_def message_def)

lemma split_slash_nonempty: "split_slash s \<noteq> []"
  by (induction s) (auto split: list.splits)

lemma split_slash_plain: "CHR ''/'' \<notin> set s \<Longrightarrow> split_slash s = [s]"
  by (induction s) auto

lemma split_slash_append: "split_slash (a @ CHR ''/'' # s) = split_slash a @ split_slash s"
  by (induction a) (auto split: list.splits simp: split_slash_nonempty)

lemma pop_files_path:
  assumes "CHR ''/'' \<notin> set s"
  shows "last (split_slash (''/files/'' @ s)) = s"
proof -
  have "''/files/'' @ s = ''/files'' @ CHR ''/'' # s" by simp
  then have "split_slash (''/files/'' @ s) = split_slash ''/files'' @ split_slash s"
    by (simp only: split_slash_append)
  with assms show ?thesis by (simp add: split_slash_plain)
qed

lemma paths_shown:
  "\<not> loading st \<Longrightarrow> truthy eng (summary st) \<Longrightarrow>
   download_paths (App eng st) =
     map (\<lambda>a. ''/files/'' @ spec_artifact_name (filename st) a) spec_artifact_kinds"
  by (simp add: App_def download_paths_def renderSection_def spec_artifact_kinds_def
        spec_artifact_name_def)

lemma paths_hidden:
  "loading st \<or> \<not> truthy eng (summary st) \<Longrightarrow> download_paths (App eng st) = []"
  by (auto simp add: App_def download_paths_def)

text \<open>
  What a failed job leaves on the page: the download buttons are offered exactly when a
  summary from an earlier job is still in the state, and they name the failed job's file.
\<close>

lemma failed_upload_downloads:
  assumes "files (target ev) = f # fs"
    and "net = FetchRejected m \<or> net = FetchResponse False body"
  shows "download_paths (App eng (fst (handleUpload eng net ev st))) =
     (if truthy eng (summary st)
      then map (\<lambda>a. ''/files/'' @ spec_artifact_name (name f) a) spec_artifact_kinds
      else [])"
proof -
  have h: "fst (handleUpload eng net ev st) = st\<lparr>filename := name f, loading := False\<rparr>"
    using handleUpload_failed [OF assms] by simp
  show ?thesis
  proof (cases "truthy eng (summary st)")
    case True
    then show ?thesis
      using paths_shown [of "st\<lparr>filename := name f, loading := False\<rparr>" eng] h by simp
  next
    case False
    then show ?thesis
      using paths_hidden [of "st\<lparr>filename := name f, loading := False\<rparr>" eng] h by simp
  qed
qed

lemma downloadFile_artifact:
  assumes "CHR ''/'' \<notin> set original" and "a \<in> set spec_artifact_kinds"
  shows "downloadFile (''/files/'' @ spec_artifact_name original a) =
     [AppendChild \<lparr>href = ''/files/'' @ spec_artifact_name original a,
                   download = spec_artifact_name original a\<rparr>,
      Click \<lparr>href = ''/files/'' @ spec_artifact_name original a,
             download = spec_artifact_name original a\<rparr>,
      RemoveChild \<lparr>href = ''/files/'' @ spec_artifact_name original a,
                   download = spec_artifact_name original a\<rparr>]"
proof -
  from assms(2) have "CHR ''/'' \<notin> set (fst a) \<and> CHR ''/'' \<notin> set (snd a)"
    by (auto simp: spec_artifact_kinds_def)
  with assms(1) have "CHR ''/'' \<notin> set (spec_artifact_name original a)"
    by (simp add: spec_artifact_name_def)
  then have "last (split_slash (''/files/'' @ spec_artifact_name original a)) =
      spec_artifact_name original a"
    by (rule pop_files_path)
  then show ?thesis
    unfolding downloadFile_def Let_def by (simp only:)
qed

lemma good_carries: "carries good_response good_result"
  by (simp add: carries_def get_prop_def good_response_def good_result_def)

lemma blank_carries: "carries blank_response blank_result"
  by (simp add: carries_def get_prop_def blank_response_def blank_result_def)

lemma pick_files: "files (target (pick n)) = [\<lparr>name = n, file_bytes = ''%PDF''\<rparr>]"
  by (simp add: pick_def)

lemma first_upload:
  "handleUpload sample_engine (FetchResponse True (JsonParsed good_response))
     (pick ''a.pdf'') initial_state =
   (shown_state,
    [Fetch ''/upload'' ''POST'' [(''file'', \<lparr>name = ''a.pdf'', file_bytes = ''%PDF''\<rparr>)]])"
  by (simp add: handleUpload_carries [OF pick_files good_carries] good_result_def
        shown_state_def)

text \<open>A body that parses to \<^verbatim>\<open>null\<close> makes the first property read throw: no cell is set.\<close>

lemma null_body_sets_nothing:
  "handleUpload sample_engine (FetchResponse True (JsonParsed JNull)) (pick ''b.pdf'')
     shown_state =
   (shown_state\<lparr>filename := ''b.pdf''\<rparr>,
    [Fetch ''/upload'' ''POST'' [(''file'', \<lparr>name = ''b.pdf'', file_bytes = ''%PDF''\<rparr>)],
     Alert (v8_message (ReadPropertyOfNull ''summary''))])"
  by (simp add: get_prop_def handleUpload_def try_block_def consume_def message_def
        pick_def shown_state_def sample_engine_def)

text \<open>
  The page after the handler has thrown at \<^verbatim>\<open>data.notes.join\<close>: what it displays
  when React can render the new values, that it goes blank when one of them holds an
  object, and that a falsy summary leaves no section (a falsy number is printed bare).
\<close>

lemma unrenderable_truthy: "react_child eng v = None \<Longrightarrow> truthy eng v"
  by (cases v) (simp_all add: truthy_def)

lemma react_section:
  "react_child eng c = Some t \<Longrightarrow>
   react_element eng (renderSection eng title c) =
     Some (ShownSection title (if truthy eng c then t else [''No data available.'']))"
  by (simp add: renderSection_def)

lemma bad_notes_handler:
  assumes "files (target ev) = f # fs"
    and "get_prop data ''summary'' = Inr s"
    and "get_prop data ''cable_pull_sheet'' = Inr p"
    and "get_prop data ''reflected_bom'' = Inr b"
    and "get_prop data ''notes'' = Inr n" and "\<not> is_array n"
  shows "\<exists>e. call_join eng n [CHR 0x0A] = Inl e \<and>
     handleUpload eng (FetchResponse True (JsonParsed data)) ev st =
       (st\<lparr>filename := name f, summary := s, pullSheet := p, bom := b, loading := False\<rparr>,
        [Fetch ''/upload'' ''POST'' [(''file'', f)], Alert (message eng e)])"
proof -
  from \<open>\<not> is_array n\<close> obtain e where e: "call_join eng n [CHR 0x0A] = Inl e"
    by (cases n) (simp_all add: call_join_def)
  have c: "consume eng data (st\<lparr>filename := name f, loading := True\<rparr>) =
      (st\<lparr>filename := name f, loading := True, summary := s, pullSheet := p, bom := b\<rparr>,
       Threw e)"
    using assms e by (simp add: consume_def)
  have h: "handleUpload eng (FetchResponse True (JsonParsed data)) ev st =
       (st\<lparr>filename := name f, summary := s, pullSheet := p, bom := b, loading := False\<rparr>,
        [Fetch ''/upload'' ''POST'' [(''file'', f)], Alert (message eng e)])"
    using assms(1) c by (simp add: handleUpload_def try_block_def)
  from e h show ?thesis by blast
qed

lemma react_results_block:
  assumes "\<not> loading st" and "truthy eng (summary st)"
    and "react_child eng (summary st) = Some ts"
    and "react_child eng (pullSheet st) = Some tp"
    and "react_child eng (bom st) = Some tb"
  shows "react eng (App eng st) =
     Some [ShownSection ''System Summary'' ts,
           ShownSection ''Cable Pull Sheet''
             (if truthy eng (pullSheet st) then tp else [''No data available.'']),
           ShownButtons
             [(''Download Pull Sheet PDF'', ''/files/'' @ filename st @ ''_pullsheet.pdf''),
              (''Download Pull Sheet CSV'', ''/files/'' @ filename st @ ''_pullsheet.csv'')],
           ShownSection ''Reflected BOM''
             (if truthy eng (bom st) then tb else [''No data available.'']),
           ShownButtons
             [(''Download BOM PDF'', ''/files/'' @ filename st @ ''_bom.pdf''),
              (''Download BOM CSV'', ''/files/'' @ filename st @ ''_bom.csv'')],
           ShownSection ''System Verification Notes''
             [if notes' st = [] then ''No data available.'' else notes' st],
           ShownButtons
             [(''Download Summary PDF'', ''/files/'' @ filename st @ ''_summary.pdf''),
              (''Download Verification PDF'',
               ''/files/'' @ filename st @ ''_verification.pdf'')]]"
  using assms by (simp add: react_def App_def react_section) (simp add: renderSection_def truthy_def)

lemma react_results_crash:
  assumes "\<not> loading st" and "truthy eng (summary st)"
    and "react_child eng (summary st) = None \<or> react_child eng (pullSheet st) = None \<or>
         react_child eng (bom st) = None"
  shows "react eng (App eng st) = None"
  using assms unrenderable_truthy [of eng "pullSheet st"] unrenderable_truthy [of eng "bom st"]
  by (auto simp: react_def App_def renderSection_def split: option.splits)

lemma react_falsy_summary:
  "\<not> loading st \<Longrightarrow> \<not> truthy eng (summary st) \<Longrightarrow>
   react eng (App eng st) = map_option (map ShownText) (react_child eng (summary st))"
  by (simp add: react_def App_def)


lemma object_summary_blanks_page:
  "handleUpload sample_engine (FetchResponse True (JsonParsed object_summary_response))
     (pick ''b.pdf'') shown_state =
     (shown_state\<lparr>summary := JObj [(''text'', JStr ''One rack'')], pullSheet := JStr ''C9 SDI'',
        bom := JStr ''2x dsp'', filename := ''b.pdf''\<rparr>,
      [Fetch ''/upload'' ''POST'' [(''file'', \<lparr>name = ''b.pdf'', file_bytes = ''%PDF''\<rparr>)],
       Alert (v8_message (ReadPropertyOfUndefined ''join''))]) \<and>
   react sample_engine (App sample_engine (fst (handleUpload sample_engine
      (FetchResponse True (JsonParsed object_summary_response)) (pick ''b.pdf'') shown_state))) =
     None"
  by (simp add: get_prop_def handleUpload_def try_block_def consume_def call_join_def message_def
        pick_def shown_state_def sample_engine_def App_def truthy_def react_def
        renderSection_def object_summary_response_def)

lemma falsy_number_summary_prints_number:
  "\<not> loading st \<Longrightarrow> summary st = JNum n \<Longrightarrow> \<not> num_truthy eng n \<Longrightarrow>
   react eng (App eng st) = Some [ShownText (num_to_string eng n)]"
  by (simp add: react_def App_def truthy_def)

section \<open>Facts about the merge\<close>

lemma dedup_from_identities:
  "set (map identity (dedup_from seen ds)) = set (map identity ds) - set seen"
  by (induction ds arbitrary: seen) auto

lemma dedup_from_fresh:
  assumes "x \<in> set (dedup_from seen ds)"
  shows "identity x \<notin> set seen"
proof -
  from assms have "identity x \<in> set (map identity (dedup_from seen ds))"
    by simp
  then show ?thesis
    unfolding dedup_from_identities by simp
qed

lemma dedup_from_distinct: "distinct (map identity (dedup_from seen ds))"
  by (induction ds arbitrary: seen) (auto dest: dedup_from_fresh)

lemma dedup_from_subset: "set (dedup_from seen ds) \<subseteq> set ds"
  by (induction ds arbitrary: seen) auto

lemma enforce_integrity_sound: "referential_integrity (enforce_integrity cfg r)"
  by (simp add: referential_integrity_def enforce_integrity_def list_all_iff)

lemma merge_devices: "ir_devices (merge cfg rs) = dedup_devices (concat (map ir_devices rs))"
  by (simp add: merge_def enforce_integrity_def)

lemma merge_sample:
  "merge sample_interpreter [page_one, page_two] =
     \<lparr>ir_devices = [amp, spk], ir_paths = [amp_to_spk],
      ir_notes = [''sheet A1'', ''dropped AMP-1 to DSP-9''],
      ir_summary = ''One zone.Controls.''\<rparr>"
  by (simp add: merge_def enforce_integrity_def dedup_devices_def identity_def resolves_def
        present_def sample_interpreter_def page_one_def page_two_def amp_def amp_again_def
        spk_def amp_to_spk_def amp_to_dsp_def)

section \<open>The upload handler: frame and completion\<close>

text \<open>
  C10. When the upload event carries no selected file, \<open>handleUpload\<close> returns at once:
  the six state cells (filename, loading, summary, pull sheet, BOM, notes) keep their
  values and no effect is issued, so no request goes to the network.
\<close>

theorem handleUpload_no_file:
  "files (target ev) = [] \<Longrightarrow> handleUpload eng net ev st = (st, [])"
  by (simp add: handleUpload_def)

theorem handleUpload_no_file_witness:
  "files (target no_pick) = [] \<and>
   handleUpload sample_engine (FetchRejected ''offline'') no_pick shown_state = (shown_state, [])"
  using handleUpload_no_file [of no_pick sample_engine "FetchRejected ''offline''" shown_state]
  by (simp add: no_pick_def)

text \<open>
  C9. Every run of \<open>handleUpload\<close> on a selected file whose request finishes (the
  promises of \<^verbatim>\<open>fetch\<close> and \<^verbatim>\<open>response.json()\<close> settle) ends with
  \<open>loading\<close> false, on the success path and on every error path.
\<close>

theorem handleUpload_resets_loading:
  "files (target ev) \<noteq> [] \<Longrightarrow> settles net \<Longrightarrow>
   loading (fst (handleUpload eng net ev st)) = False"
proof (cases "files (target ev)")
  case Nil
  assume "files (target ev) \<noteq> []"
  with Nil show ?thesis by simp
next
  case (Cons f fs)
  assume s: "settles net"
  obtain st' c where t: "try_block eng net (st\<lparr>filename := name f, loading := True\<rparr>) = (st', c)"
    by (cases "try_block eng net (st\<lparr>filename := name f, loading := True\<rparr>)")
  have "c \<noteq> Suspended"
    using s t
    by (cases net)
       (auto simp: try_block_def consume_def Let_def
             split: sum.splits json_outcome.splits if_splits)
  with Cons t show ?thesis
    by (cases c) (simp_all add: handleUpload_def)
qed

theorem handleUpload_resets_loading_witness:
  "files (target (pick ''b.pdf'')) \<noteq> [] \<and>
   settles (FetchResponse True (JsonParsed (JObj [(''summary'', JStr ''S'')]))) \<and>
   loading (fst (handleUpload sample_engine
                   (FetchResponse True (JsonParsed (JObj [(''summary'', JStr ''S'')])))
                   (pick ''b.pdf'') shown_state)) = False"
  using handleUpload_resets_loading
    [of "pick ''b.pdf''" "FetchResponse True (JsonParsed (JObj [(''summary'', JStr ''S'')]))"
        sample_engine shown_state]
  by (simp add: pick_def)

section \<open>What a completed job puts on the page\<close>

text \<open>
  C6. For a successfully completed job the response carries a JobResult with the fields
  \<open>summary\<close>, \<open>cable_pull_sheet\<close>, \<open>reflected_bom\<close> (texts) and \<open>notes\<close> (an ordered
  list of strings), and the upload handler consumes exactly these four: the state it
  leaves is made of them (the notes joined by newlines), of the file name and of nothing
  else in the response, and no alert is raised.
\<close>

theorem handleUpload_consumes_job_result:
  "files (target ev) = f # fs \<Longrightarrow> carries data jr \<Longrightarrow>
   handleUpload eng (FetchResponse True (JsonParsed data)) ev st =
     (\<lparr>summary = JStr (jr_summary jr), pullSheet = JStr (jr_cable_pull_sheet jr),
       bom = JStr (jr_reflected_bom jr), notes' = join_strings [CHR 0x0A] (jr_notes jr),
       filename = name f, loading = False\<rparr>,
      [Fetch ''/upload'' ''POST'' [(''file'', f)]])"
  by (rule handleUpload_carries)

theorem handleUpload_consumes_job_result_witness:
  "files (target (pick ''a.pdf'')) = [\<lparr>name = ''a.pdf'', file_bytes = ''%PDF''\<rparr>] \<and>
   carries good_response good_result \<and>
   handleUpload sample_engine (FetchResponse True (JsonParsed good_response))
     (pick ''a.pdf'') initial_state =
     (\<lparr>summary = JStr ''Two racks'', pullSheet = JStr ''C1 HDMI'', bom = JStr ''1x amp'',
       notes' = ''check rack 2'', filename = ''a.pdf'', loading = False\<rparr>,
      [Fetch ''/upload'' ''POST'' [(''file'', \<lparr>name = ''a.pdf'', file_bytes = ''%PDF''\<rparr>)]])"
  using handleUpload_consumes_job_result
    [where eng = sample_engine and st = initial_state,
     OF pick_files [of "''a.pdf''"] good_carries]
    pick_files [of "''a.pdf''"] good_carries
  by (simp add: good_result_def)

text \<open>
  C5, as amended. After a successful upload whose JobResult has a non-empty summary, the
  page offers exactly six artifact references, in the order pull-sheet PDF, pull-sheet
  CSV, BOM PDF, BOM CSV, summary PDF, verification PDF. The page builds them from the
  name of the uploaded file (the response carries none): each path is \<^verbatim>\<open>/files/\<close>
  followed by \<^verbatim>\<open>{original-filename}_{artifact-suffix}.{ext}\<close>, and for a file name
  without a slash \<open>downloadFile\<close> saves each under exactly that name.
\<close>

theorem successful_upload_offers_six_artifacts:
  assumes "files (target ev) = f # fs" and "carries data jr" and "jr_summary jr \<noteq> []"
  shows "download_paths
           (App eng (fst (handleUpload eng (FetchResponse True (JsonParsed data)) ev st))) =
         map (\<lambda>a. ''/files/'' @ spec_artifact_name (name f) a) spec_artifact_kinds \<and>
         (CHR ''/'' \<notin> set (name f) \<longrightarrow>
          map downloadFile
            (download_paths
               (App eng (fst (handleUpload eng (FetchResponse True (JsonParsed data)) ev st)))) =
          map (\<lambda>a. [AppendChild \<lparr>href = ''/files/'' @ spec_artifact_name (name f) a,
                                 download = spec_artifact_name (name f) a\<rparr>,
                    Click \<lparr>href = ''/files/'' @ spec_artifact_name (name f) a,
                           download = spec_artifact_name (name f) a\<rparr>,
                    RemoveChild \<lparr>href = ''/files/'' @ spec_artifact_name (name f) a,
                                 download = spec_artifact_name (name f) a\<rparr>])
            spec_artifact_kinds)"
proof -
  let ?st = "fst (handleUpload eng (FetchResponse True (JsonParsed data)) ev st)"
  have "\<not> loading ?st" and "truthy eng (summary ?st)" and "filename ?st = name f"
    using assms by (simp_all add: handleUpload_carries truthy_def)
  then have p: "download_paths (App eng ?st) =
      map (\<lambda>a. ''/files/'' @ spec_artifact_name (name f) a) spec_artifact_kinds"
    using paths_shown [of ?st eng] by simp
  show ?thesis
    unfolding p
  proof (intro conjI impI)
    show "map (\<lambda>a. ''/files/'' @ spec_artifact_name (name f) a) spec_artifact_kinds =
          map (\<lambda>a. ''/files/'' @ spec_artifact_name (name f) a) spec_artifact_kinds"
      by (rule refl)
  next
    assume n: "CHR ''/'' \<notin> set (name f)"
    show "map downloadFile
            (map (\<lambda>a. ''/files/'' @ spec_artifact_name (name f) a) spec_artifact_kinds) =
          map (\<lambda>a. [AppendChild \<lparr>href = ''/files/'' @ spec_artifact_name (name f) a,
                                 download = spec_artifact_name (name f) a\<rparr>,
                    Click \<lparr>href = ''/files/'' @ spec_artifact_name (name f) a,
                           download = spec_artifact_name (name f) a\<rparr>,
                    RemoveChild \<lparr>href = ''/files/'' @ spec_artifact_name (name f) a,
                                 download = spec_artifact_name (name f) a\<rparr>])
            spec_artifact_kinds"
      unfolding map_map comp_def
      by (rule map_cong [OF refl]) (rule downloadFile_artifact [OF n])
  qed
qed

theorem successful_upload_offers_six_artifacts_witness:
  "files (target (pick ''a.pdf'')) = [\<lparr>name = ''a.pdf'', file_bytes = ''%PDF''\<rparr>] \<and>
   carries good_response good_result \<and> jr_summary good_result \<noteq> [] \<and>
   CHR ''/'' \<notin> set ''a.pdf'' \<and>
   download_paths (App sample_engine (fst (handleUpload sample_engine
      (FetchResponse True (JsonParsed good_response)) (pick ''a.pdf'') initial_state))) =
     [''/files/a.pdf_pullsheet.pdf'', ''/files/a.pdf_pullsheet.csv'',
      ''/files/a.pdf_bom.pdf'', ''/files/a.pdf_bom.csv'',
      ''/files/a.pdf_summary.pdf'', ''/files/a.pdf_verification.pdf''] \<and>
   map downloadFile
     (download_paths (App sample_engine (fst (handleUpload sample_engine
        (FetchResponse True (JsonParsed good_response)) (pick ''a.pdf'') initial_state)))) =
     map (\<lambda>n. [AppendChild \<lparr>href = ''/files/'' @ n, download = n\<rparr>,
               Click \<lparr>href = ''/files/'' @ n, download = n\<rparr>,
               RemoveChild \<lparr>href = ''/files/'' @ n, download = n\<rparr>])
       [''a.pdf_pullsheet.pdf'', ''a.pdf_pullsheet.csv'', ''a.pdf_bom.pdf'', ''a.pdf_bom.csv'',
        ''a.pdf_summary.pdf'', ''a.pdf_verification.pdf'']"
proof -
  have s: "jr_summary good_result \<noteq> []" by (simp add: good_result_def)
  note t = successful_upload_offers_six_artifacts
    [where eng = sample_engine and st = initial_state,
     OF pick_files [of "''a.pdf''"] good_carries s, simplified]
  note 1 = t [THEN conjunct1] and 2 = t [THEN conjunct2]
  from 1 have a: "download_paths (App sample_engine (fst (handleUpload sample_engine
      (FetchResponse True (JsonParsed good_response)) (pick ''a.pdf'') initial_state))) =
     [''/files/a.pdf_pullsheet.pdf'', ''/files/a.pdf_pullsheet.csv'',
      ''/files/a.pdf_bom.pdf'', ''/files/a.pdf_bom.csv'',
      ''/files/a.pdf_summary.pdf'', ''/files/a.pdf_verification.pdf'']"
    by (simp add: spec_artifact_kinds_def spec_artifact_name_def)
  from 2 have b: "map downloadFile
     (download_paths (App sample_engine (fst (handleUpload sample_engine
        (FetchResponse True (JsonParsed good_response)) (pick ''a.pdf'') initial_state)))) =
     map (\<lambda>n. [AppendChild \<lparr>href = ''/files/'' @ n, download = n\<rparr>,
               Click \<lparr>href = ''/files/'' @ n, download = n\<rparr>,
               RemoveChild \<lparr>href = ''/files/'' @ n, download = n\<rparr>])
       [''a.pdf_pullsheet.pdf'', ''a.pdf_pullsheet.csv'', ''a.pdf_bom.pdf'', ''a.pdf_bom.csv'',
        ''a.pdf_summary.pdf'', ''a.pdf_verification.pdf'']"
    by (simp add: spec_artifact_kinds_def spec_artifact_name_def)
  show ?thesis
    by (intro conjI pick_files good_carries s a b) simp
qed

theorem blank_summary_offers_no_artifacts:
  "carries blank_response blank_result \<and>
   download_paths (App sample_engine (fst (handleUpload sample_engine
      (FetchResponse True (JsonParsed blank_response)) (pick ''a.pdf'') initial_state))) = []"
proof (intro conjI)
  show "carries blank_response blank_result" by (rule blank_carries)
  show "download_paths (App sample_engine (fst (handleUpload sample_engine
      (FetchResponse True (JsonParsed blank_response)) (pick ''a.pdf'') initial_state))) = []"
    by (simp add: handleUpload_carries [OF pick_files blank_carries]
          App_def download_paths_def truthy_def blank_result_def)
qed

section \<open>What a failed job leaves on the page\<close>

text \<open>
  C8, as amended. If the response parses as JSON whose \<open>summary\<close> is truthy, whose
  \<open>summary\<close>, \<open>cable_pull_sheet\<close> and \<open>reflected_bom\<close> are values React can render
  (no object among them), and whose \<open>notes\<close> is absent or not an array, the handler
  throws at \<^verbatim>\<open>data.notes.join\<close> after the summary, pull-sheet and BOM cells have
  been set: the alert runs, loading is reset, the notes cell keeps its earlier value, and
  the page displays the three sections with the new data (\<^verbatim>\<open>No data available.\<close>
  for a falsy pull sheet or BOM) beside the earlier notes and the six download buttons.
\<close>

theorem bad_notes_shows_partial_result:
  assumes "files (target ev) = f # fs"
    and "get_prop data ''summary'' = Inr s" and "truthy eng s"
    and "get_prop data ''cable_pull_sheet'' = Inr p"
    and "get_prop data ''reflected_bom'' = Inr b"
    and "get_prop data ''notes'' = Inr n" and "\<not> is_array n"
    and "react_child eng s = Some ts"
    and "react_child eng p = Some tp"
    and "react_child eng b = Some tb"
  shows "\<exists>e. call_join eng n [CHR 0x0A] = Inl e \<and>
     handleUpload eng (FetchResponse True (JsonParsed data)) ev st =
       (st\<lparr>filename := name f, summary := s, pullSheet := p, bom := b, loading := False\<rparr>,
        [Fetch ''/upload'' ''POST'' [(''file'', f)], Alert (message eng e)]) \<and>
     results (App eng (fst (handleUpload eng (FetchResponse True (JsonParsed data)) ev st))) =
       Fragment
         [Section ''System Summary'' s,
          renderSection eng ''Cable Pull Sheet'' p,
          Buttons [(''Download Pull Sheet PDF'', ''/files/'' @ name f @ ''_pullsheet.pdf''),
                   (''Download Pull Sheet CSV'', ''/files/'' @ name f @ ''_pullsheet.csv'')],
          renderSection eng ''Reflected BOM'' b,
          Buttons [(''Download BOM PDF'', ''/files/'' @ name f @ ''_bom.pdf''),
                   (''Download BOM CSV'', ''/files/'' @ name f @ ''_bom.csv'')],
          renderSection eng ''System Verification Notes'' (JStr (notes' st)),
          Buttons [(''Download Summary PDF'', ''/files/'' @ name f @ ''_summary.pdf''),
                   (''Download Verification PDF'',
                    ''/files/'' @ name f @ ''_verification.pdf'')]] \<and>
     react eng (App eng (fst (handleUpload eng (FetchResponse True (JsonParsed data)) ev st))) =
       Some
         [ShownSection ''System Summary'' ts,
          ShownSection ''Cable Pull Sheet''
            (if truthy eng p then tp else [''No data available.'']),
          ShownButtons
            [(''Download Pull Sheet PDF'', ''/files/'' @ name f @ ''_pullsheet.pdf''),
             (''Download Pull Sheet CSV'', ''/files/'' @ name f @ ''_pullsheet.csv'')],
          ShownSection ''Reflected BOM''
            (if truthy eng b then tb else [''No data available.'']),
          ShownButtons
            [(''Download BOM PDF'', ''/files/'' @ name f @ ''_bom.pdf''),
             (''Download BOM CSV'', ''/files/'' @ name f @ ''_bom.csv'')],
          ShownSection ''System Verification Notes''
            [if notes' st = [] then ''No data available.'' else notes' st],
          ShownButtons
            [(''Download Summary PDF'', ''/files/'' @ name f @ ''_summary.pdf''),
             (''Download Verification PDF'',
              ''/files/'' @ name f @ ''_verification.pdf'')]]"
proof -
  let ?st = "st\<lparr>filename := name f, summary := s, pullSheet := p, bom := b, loading := False\<rparr>"
  from bad_notes_handler [OF assms(1,2,4,5,6,7)]
  obtain e where e: "call_join eng n [CHR 0x0A] = Inl e"
    and h: "handleUpload eng (FetchResponse True (JsonParsed data)) ev st =
       (?st, [Fetch ''/upload'' ''POST'' [(''file'', f)], Alert (message eng e)])"
    by blast
  have t: "results (App eng ?st) =
       Fragment
         [Section ''System Summary'' s,
          renderSection eng ''Cable Pull Sheet'' p,
          Buttons [(''Download Pull Sheet PDF'', ''/files/'' @ name f @ ''_pullsheet.pdf''),
                   (''Download Pull Sheet CSV'', ''/files/'' @ name f @ ''_pullsheet.csv'')],
          renderSection eng ''Reflected BOM'' b,
          Buttons [(''Download BOM PDF'', ''/files/'' @ name f @ ''_bom.pdf''),
                   (''Download BOM CSV'', ''/files/'' @ name f @ ''_bom.csv'')],
          renderSection eng ''System Verification Notes'' (JStr (notes' st)),
          Buttons [(''Download Summary PDF'', ''/files/'' @ name f @ ''_summary.pdf''),
                   (''Download Verification PDF'',
                    ''/files/'' @ name f @ ''_verification.pdf'')]]"
    using \<open>truthy eng s\<close> by (simp add: App_def renderSection_def)
  have r: "react eng (App eng ?st) =
       Some
         [ShownSection ''System Summary'' ts,
          ShownSection ''Cable Pull Sheet''
            (if truthy eng p then tp else [''No data available.'']),
          ShownButtons
            [(''Download Pull Sheet PDF'', ''/files/'' @ name f @ ''_pullsheet.pdf''),
             (''Download Pull Sheet CSV'', ''/files/'' @ name f @ ''_pullsheet.csv'')],
          ShownSection ''Reflected BOM''
            (if truthy eng b then tb else [''No data available.'']),
          ShownButtons
            [(''Download BOM PDF'', ''/files/'' @ name f @ ''_bom.pdf''),
             (''Download BOM CSV'', ''/files/'' @ name f @ ''_bom.csv'')],
          ShownSection ''System Verification Notes''
            [if notes' st = [] then ''No data available.'' else notes' st],
          ShownButtons
            [(''Download Summary PDF'', ''/files/'' @ name f @ ''_summary.pdf''),
             (''Download Verification PDF'',
              ''/files/'' @ name f @ ''_verification.pdf'')]]"
    using react_results_block [of ?st eng ts tp tb] assms(3,8,9,10) by simp
  from e h t r show ?thesis by simp
qed


theorem bad_notes_shows_partial_result_witness:
  "files (target (pick ''b.pdf'')) = [\<lparr>name = ''b.pdf'', file_bytes = ''%PDF''\<rparr>] \<and>
   get_prop bad_notes_response ''summary'' = Inr (JStr ''One rack'') \<and>
   truthy sample_engine (JStr ''One rack'') \<and>
   get_prop bad_notes_response ''cable_pull_sheet'' = Inr (JStr ''C9 SDI'') \<and>
   get_prop bad_notes_response ''reflected_bom'' = Inr (JStr ''2x dsp'') \<and>
   get_prop bad_notes_response ''notes'' = Inr (JStr ''none'') \<and>
   \<not> is_array (JStr ''none'' :: nat js) \<and>
   react_child sample_engine (JStr ''One rack'') = Some [''One rack''] \<and>
   react_child sample_engine (JStr ''C9 SDI'') = Some [''C9 SDI''] \<and>
   react_child sample_engine (JStr ''2x dsp'') = Some [''2x dsp''] \<and>
   handleUpload sample_engine (FetchResponse True (JsonParsed bad_notes_response))
     (pick ''b.pdf'') shown_state =
     (\<lparr>summary = JStr ''One rack'', pullSheet = JStr ''C9 SDI'', bom = JStr ''2x dsp'',
       notes' = ''check rack 2'', filename = ''b.pdf'', loading = False\<rparr>,
      [Fetch ''/upload'' ''POST'' [(''file'', \<lparr>name = ''b.pdf'', file_bytes = ''%PDF''\<rparr>)],
       Alert ''data.notes.join is not a function'']) \<and>
   react sample_engine (App sample_engine (fst (handleUpload sample_engine
      (FetchResponse True (JsonParsed bad_notes_response)) (pick ''b.pdf'') shown_state))) =
     Some
       [ShownSection ''System Summary'' [''One rack''],
        ShownSection ''Cable Pull Sheet'' [''C9 SDI''],
        ShownButtons [(''Download Pull Sheet PDF'', ''/files/b.pdf_pullsheet.pdf''),
                      (''Download Pull Sheet CSV'', ''/files/b.pdf_pullsheet.csv'')],
        ShownSection ''Reflected BOM'' [''2x dsp''],
        ShownButtons [(''Download BOM PDF'', ''/files/b.pdf_bom.pdf''),
                      (''Download BOM CSV'', ''/files/b.pdf_bom.csv'')],
        ShownSection ''System Verification Notes'' [''check rack 2''],
        ShownButtons [(''Download Summary PDF'', ''/files/b.pdf_summary.pdf''),
                      (''Download Verification PDF'', ''/files/b.pdf_verification.pdf'')]]"
proof -
  have g1: "get_prop bad_notes_response ''summary'' = Inr (JStr ''One rack'')"
    and g2: "get_prop bad_notes_response ''cable_pull_sheet'' = Inr (JStr ''C9 SDI'')"
    and g3: "get_prop bad_notes_response ''reflected_bom'' = Inr (JStr ''2x dsp'')"
    and g4: "get_prop bad_notes_response ''notes'' = Inr (JStr ''none'')"
    by (simp_all add: get_prop_def bad_notes_response_def)
  have t: "truthy sample_engine (JStr ''One rack'')"
    by (simp add: truthy_def)
  have a: "\<not> is_array (JStr ''none'' :: nat js)"
    by simp
  have c1: "react_child sample_engine (JStr ''One rack'') = Some [''One rack'']"
    and c2: "react_child sample_engine (JStr ''C9 SDI'') = Some [''C9 SDI'']"
    and c3: "react_child sample_engine (JStr ''2x dsp'') = Some [''2x dsp'']"
    by simp_all
  from bad_notes_shows_partial_result
    [where eng = sample_engine and st = shown_state,
     OF pick_files [of "''b.pdf''"] g1 t g2 g3 g4 a c1 c2 c3]
  obtain e where e: "call_join sample_engine (JStr ''none'') [CHR 0x0A] = Inl e"
    and h: "handleUpload sample_engine (FetchResponse True (JsonParsed bad_notes_response))
        (pick ''b.pdf'') shown_state =
       (shown_state\<lparr>filename := name \<lparr>name = ''b.pdf'', file_bytes = ''%PDF''\<rparr>,
          summary := JStr ''One rack'', pullSheet := JStr ''C9 SDI'', bom := JStr ''2x dsp'',
          loading := False\<rparr>,
        [Fetch ''/upload'' ''POST'' [(''file'', \<lparr>name = ''b.pdf'', file_bytes = ''%PDF''\<rparr>)],
         Alert (message sample_engine e)])"
    and r: "react sample_engine (App sample_engine (fst (handleUpload sample_engine
        (FetchResponse True (JsonParsed bad_notes_response)) (pick ''b.pdf'') shown_state))) =
       Some
         [ShownSection ''System Summary'' [''One rack''],
          ShownSection ''Cable Pull Sheet''
            (if truthy sample_engine (JStr ''C9 SDI'') then [''C9 SDI'']
             else [''No data available.'']),
          ShownButtons
            [(''Download Pull Sheet PDF'',
              ''/files/'' @ name \<lparr>name = ''b.pdf'', file_bytes = ''%PDF''\<rparr> @ ''_pullsheet.pdf''),
             (''Download Pull Sheet CSV'',
              ''/files/'' @ name \<lparr>name = ''b.pdf'', file_bytes = ''%PDF''\<rparr> @ ''_pullsheet.csv'')],
          ShownSection ''Reflected BOM''
            (if truthy sample_engine (JStr ''2x dsp'') then [''2x dsp'']
             else [''No data available.'']),
          ShownButtons
            [(''Download BOM PDF'',
              ''/files/'' @ name \<lparr>name = ''b.pdf'', file_bytes = ''%PDF''\<rparr> @ ''_bom.pdf''),
             (''Download BOM CSV'',
              ''/files/'' @ name \<lparr>name = ''b.pdf'', file_bytes = ''%PDF''\<rparr> @ ''_bom.csv'')],
          ShownSection ''System Verification Notes''
            [if notes' shown_state = [] then ''No data available.'' else notes' shown_state],
          ShownButtons
            [(''Download Summary PDF'',
              ''/files/'' @ name \<lparr>name = ''b.pdf'', file_bytes = ''%PDF''\<rparr> @ ''_summary.pdf''),
             (''Download Verification PDF'',
              ''/files/'' @ name \<lparr>name = ''b.pdf'', file_bytes = ''%PDF''\<rparr> @ ''_verification.pdf'')]]"
    by blast
  from e have m: "message sample_engine e = ''data.notes.join is not a function''"
    by (auto simp: call_join_def message_def sample_engine_def v8_message_def)
  from h m have h': "handleUpload sample_engine
        (FetchResponse True (JsonParsed bad_notes_response)) (pick ''b.pdf'') shown_state =
     (\<lparr>summary = JStr ''One rack'', pullSheet = JStr ''C9 SDI'', bom = JStr ''2x dsp'',
       notes' = ''check rack 2'', filename = ''b.pdf'', loading = False\<rparr>,
      [Fetch ''/upload'' ''POST'' [(''file'', \<lparr>name = ''b.pdf'', file_bytes = ''%PDF''\<rparr>)],
       Alert ''data.notes.join is not a function''])"
    by (simp add: shown_state_def)
  from r have r': "react sample_engine (App sample_engine (fst (handleUpload sample_engine
      (FetchResponse True (JsonParsed bad_notes_response)) (pick ''b.pdf'') shown_state))) =
     Some
       [ShownSection ''System Summary'' [''One rack''],
        ShownSection ''Cable Pull Sheet'' [''C9 SDI''],
        ShownButtons [(''Download Pull Sheet PDF'', ''/files/b.pdf_pullsheet.pdf''),
                      (''Download Pull Sheet CSV'', ''/files/b.pdf_pullsheet.csv'')],
        ShownSection ''Reflected BOM'' [''2x dsp''],
        ShownButtons [(''Download BOM PDF'', ''/files/b.pdf_bom.pdf''),
                      (''Download BOM CSV'', ''/files/b.pdf_bom.csv'')],
        ShownSection ''System Verification Notes'' [''check rack 2''],
        ShownButtons [(''Download Summary PDF'', ''/files/b.pdf_summary.pdf''),
                      (''Download Verification PDF'', ''/files/b.pdf_verification.pdf'')]]"
    by (simp add: truthy_def shown_state_def)
  show ?thesis
    by (intro conjI pick_files g1 g2 g3 g4 t a c1 c2 c3 h' r')
qed

theorem absent_fields_render_nothing:
  "get_prop (JObj [] :: nat js) ''notes'' = Inr JUndefined \<and>
   handleUpload sample_engine (FetchResponse True (JsonParsed (JObj []))) (pick ''b.pdf'')
     shown_state =
     (shown_state\<lparr>summary := JUndefined, pullSheet := JUndefined, bom := JUndefined,
        filename := ''b.pdf''\<rparr>,
      [Fetch ''/upload'' ''POST'' [(''file'', \<lparr>name = ''b.pdf'', file_bytes = ''%PDF''\<rparr>)],
       Alert (v8_message (ReadPropertyOfUndefined ''join''))]) \<and>
   results (App sample_engine (fst (handleUpload sample_engine
      (FetchResponse True (JsonParsed (JObj []))) (pick ''b.pdf'') shown_state))) =
     Plain JUndefined"
  by (simp add: get_prop_def handleUpload_def try_block_def consume_def call_join_def message_def
        pick_def shown_state_def sample_engine_def App_def truthy_def)

text \<open>
  C2. A job that fails exposes no artifact references to the caller. The page breaks
  this after an earlier success: the upload of \<^verbatim>\<open>a.pdf\<close> completes, the upload of
  \<^verbatim>\<open>b.pdf\<close> is answered with a response that is not ok, the handler alerts
  \<^verbatim>\<open>Upload failed\<close>, and the page still shows the earlier summary with six download
  buttons that now name the artifacts of the failed \<^verbatim>\<open>b.pdf\<close>.
\<close>

theorem failed_upload_after_success_offers_downloads:
  "handleUpload sample_engine (FetchResponse True (JsonParsed good_response))
     (pick ''a.pdf'') initial_state =
     (shown_state,
      [Fetch ''/upload'' ''POST'' [(''file'', \<lparr>name = ''a.pdf'', file_bytes = ''%PDF''\<rparr>)]]) \<and>
   handleUpload sample_engine (FetchResponse False (JsonParsed error_response))
     (pick ''b.pdf'') shown_state =
     (shown_state\<lparr>filename := ''b.pdf''\<rparr>,
      [Fetch ''/upload'' ''POST'' [(''file'', \<lparr>name = ''b.pdf'', file_bytes = ''%PDF''\<rparr>)],
       Alert ''Upload failed'']) \<and>
   download_paths (App sample_engine (shown_state\<lparr>filename := ''b.pdf''\<rparr>)) =
     [''/files/b.pdf_pullsheet.pdf'', ''/files/b.pdf_pullsheet.csv'',
      ''/files/b.pdf_bom.pdf'', ''/files/b.pdf_bom.csv'',
      ''/files/b.pdf_summary.pdf'', ''/files/b.pdf_verification.pdf'']"
proof -
  have 2: "handleUpload sample_engine (FetchResponse False (JsonParsed error_response))
     (pick ''b.pdf'') shown_state =
     (shown_state\<lparr>filename := ''b.pdf''\<rparr>,
      [Fetch ''/upload'' ''POST'' [(''file'', \<lparr>name = ''b.pdf'', file_bytes = ''%PDF''\<rparr>)],
       Alert ''Upload failed''])"
    by (simp add: handleUpload_failed [OF pick_files] shown_state_def)
  have 3: "download_paths (App sample_engine (shown_state\<lparr>filename := ''b.pdf''\<rparr>)) =
     [''/files/b.pdf_pullsheet.pdf'', ''/files/b.pdf_pullsheet.csv'',
      ''/files/b.pdf_bom.pdf'', ''/files/b.pdf_bom.csv'',
      ''/files/b.pdf_summary.pdf'', ''/files/b.pdf_verification.pdf'']"
    by (simp add: App_def download_paths_def renderSection_def truthy_def shown_state_def)
  from first_upload 2 3 show ?thesis by (intro conjI)
qed

section \<open>The Interpretation Engine\<close>

text \<open>
  C7. When the interpretation results of several chunks are merged, devices are
  deduplicated by their (name, location) identity: the merged list has no two devices of
  one identity, keeps every identity of the chunks and holds only devices of the chunks.
  The merged routing paths are the chunks' paths that resolve in the deduplicated device
  list; every path that refers to an absent device is dropped, and its note is recorded.
\<close>

theorem merge_policy:
  "distinct (map identity (ir_devices (merge cfg rs))) \<and>
   set (map identity (ir_devices (merge cfg rs))) =
     set (map identity (concat (map ir_devices rs))) \<and>
   set (ir_devices (merge cfg rs)) \<subseteq> set (concat (map ir_devices rs)) \<and>
   ir_paths (merge cfg rs) =
     filter (resolves (ir_devices (merge cfg rs))) (concat (map ir_paths rs)) \<and>
   (\<forall>p \<in> set (concat (map ir_paths rs)).
      \<not> resolves (ir_devices (merge cfg rs)) p \<longrightarrow>
        p \<notin> set (ir_paths (merge cfg rs)) \<and>
        dropped_note cfg p \<in> set (ir_notes (merge cfg rs)))"
proof -
  have d: "ir_devices (merge cfg rs) = dedup_from [] (concat (map ir_devices rs))"
    by (simp add: merge_devices dedup_devices_def)
  have p: "ir_paths (merge cfg rs) =
     filter (resolves (ir_devices (merge cfg rs))) (concat (map ir_paths rs))"
    by (simp add: merge_def enforce_integrity_def)
  have n: "\<forall>p \<in> set (concat (map ir_paths rs)).
      \<not> resolves (ir_devices (merge cfg rs)) p \<longrightarrow>
        dropped_note cfg p \<in> set (ir_notes (merge cfg rs))"
    by (simp add: merge_def enforce_integrity_def)
  have 1: "distinct (map identity (ir_devices (merge cfg rs)))"
    unfolding d by (rule dedup_from_distinct)
  have 2: "set (map identity (ir_devices (merge cfg rs))) =
      set (map identity (concat (map ir_devices rs)))"
    unfolding d by (simp only: dedup_from_identities) simp
  have 3: "set (ir_devices (merge cfg rs)) \<subseteq> set (concat (map ir_devices rs))"
    unfolding d by (rule dedup_from_subset)
  from p have 4: "\<forall>p \<in> set (concat (map ir_paths rs)).
      \<not> resolves (ir_devices (merge cfg rs)) p \<longrightarrow> p \<notin> set (ir_paths (merge cfg rs))"
    by simp
  from 1 2 3 p 4 n show ?thesis by blast
qed

theorem merge_policy_witness:
  "amp_to_dsp \<in> set (concat (map ir_paths [page_one, page_two])) \<and>
   \<not> resolves (ir_devices (merge sample_interpreter [page_one, page_two])) amp_to_dsp \<and>
   amp_to_dsp \<notin> set (ir_paths (merge sample_interpreter [page_one, page_two])) \<and>
   dropped_note sample_interpreter amp_to_dsp
     \<in> set (ir_notes (merge sample_interpreter [page_one, page_two])) \<and>
   ir_devices (merge sample_interpreter [page_one, page_two]) = [amp, spk]"
proof -
  have m: "amp_to_dsp \<in> set (concat (map ir_paths [page_one, page_two]))"
    by (simp add: page_one_def page_two_def)
  have r: "\<not> resolves (ir_devices (merge sample_interpreter [page_one, page_two])) amp_to_dsp"
    by (simp add: merge_sample resolves_def present_def amp_def spk_def amp_to_dsp_def)
  from merge_policy [of sample_interpreter "[page_one, page_two]"] m r
  have "amp_to_dsp \<notin> set (ir_paths (merge sample_interpreter [page_one, page_two])) \<and>
     dropped_note sample_interpreter amp_to_dsp
       \<in> set (ir_notes (merge sample_interpreter [page_one, page_two]))"
    by blast
  with m r show ?thesis
    by (simp add: merge_sample)
qed

text \<open>
  C1. Every InterpretationResult that \<open>interpret\<close> returns, the merge of one chunk or of
  many, has referential integrity: the source and the destination of each routing path
  are devices of the result's own device list. The enforcement step runs before the
  result is returned.
\<close>

theorem interpret_referential_integrity:
  "interpret_content cfg content = Inr r \<Longrightarrow> referential_integrity r"
  by (auto simp: interpret_content_def merge_def enforce_integrity_sound split: sum.splits)

theorem interpret_referential_integrity_witness:
  "interpret_content sample_interpreter two_pages =
     Inr (merge sample_interpreter [page_one, page_two]) \<and>
   referential_integrity (merge sample_interpreter [page_one, page_two])"
proof -
  have h: "interpret_content sample_interpreter two_pages =
      Inr (merge sample_interpreter [page_one, page_two])"
    by (simp add: interpret_content_def sample_interpreter_def two_pages_def)
  from interpret_referential_integrity [OF h] h show ?thesis
    by simp
qed

end
